theory Spec2Isabelle
  imports Main "HOL-Library.Sublist"
begin

section \<open>Extracted records\<close>

text \<open>
  \<open>parse_articles\<close> collects one dictionary per article with the keys \<open>title\<close>, \<open>link\<close>,
  \<open>summary\<close> and \<open>pubdate_raw\<close>; the last one is \<open>None\<close> when no date was found.
  Strings are lists of characters whose code points lie below 256.
\<close>

record item =
  title :: string
  link :: string
  summary :: string
  pubdate_raw :: "string option"

definition MAX_ITEMS :: nat where
  "MAX_ITEMS = 40"

section \<open>Deduplication and limit (lines 84 to 93 of \<open>parse_articles\<close>)\<close>

text \<open>
  The loop \<open>for it in results\<close> with its two local variables \<open>seen\<close> and \<open>dedup\<close>.
  A record whose link is in \<open>seen\<close> is passed over (\<open>continue\<close>); otherwise the link is
  added to \<open>seen\<close>, the record is appended to \<open>dedup\<close>, and only then the length of
  \<open>dedup\<close> is compared with the limit (\<open>break\<close>). The limit is a parameter here; the source
  uses the constant \<open>MAX_ITEMS\<close>.
\<close>

fun dedup_loop :: "nat \<Rightarrow> item list \<Rightarrow> string set \<Rightarrow> item list \<Rightarrow> item list" where
  "dedup_loop max_count [] seen dedup = dedup"
| "dedup_loop max_count (it # rest) seen dedup =
     (if link it \<in> seen then dedup_loop max_count rest seen dedup
      else let seen' = insert (link it) seen;
               dedup' = dedup @ [it]
           in if length dedup' \<ge> max_count then dedup'
              else dedup_loop max_count rest seen' dedup')"

definition dedupe_and_limit :: "nat \<Rightarrow> item list \<Rightarrow> item list" where
  "dedupe_and_limit max_count results = dedup_loop max_count results {} []"

text \<open>
  The specification's wording, independent of the loop: the first occurrence of every link,
  in input order.
\<close>

function first_occurrences :: "item list \<Rightarrow> item list" where
  "first_occurrences [] = []"
| "first_occurrences (x # xs) = x # first_occurrences (filter (\<lambda>y. link y \<noteq> link x) xs)"
  by pat_completeness auto
termination
  by (relation "measure length") (auto simp: less_Suc_eq_le)

section \<open>The parsed page\<close>

text \<open>
  \<open>BeautifulSoup(html, "html.parser")\<close> turns the markup into a tree. The model starts from
  that tree: an element has a tag name, the list of its classes (the parser keeps the
  \<open>class\<close> attribute as a list), its other attributes, and its children, which are
  elements and strings. A position in the tree is an element together with its ancestors,
  nearest first, since a descendant selector such as \<open>h3 a\<close> looks at the ancestors.
\<close>

datatype node =
    Text string
  | Element (tag: string) (classes: "string list") (attrs: "(string \<times> string) list")
      (children: "node list")

type_synonym located = "node list \<times> node"

text \<open>Exceptions that the modelled calls can raise, with their message.\<close>

datatype exn = ValueError string | RequestException string

fun str_exn :: "exn \<Rightarrow> string" where
  "str_exn (ValueError m) = m"
| "str_exn (RequestException m) = m"

fun is_element :: "node \<Rightarrow> bool" where
  "is_element (Text s) = False"
| "is_element (Element t c a ch) = True"

fun node_tag :: "node \<Rightarrow> string" where
  "node_tag (Text s) = []"
| "node_tag (Element t c a ch) = t"

fun node_classes :: "node \<Rightarrow> string list" where
  "node_classes (Text s) = []"
| "node_classes (Element t c a ch) = c"

fun node_children :: "node \<Rightarrow> node list" where
  "node_children (Text s) = []"
| "node_children (Element t c a ch) = ch"

text \<open>\<open>tag.get(name)\<close>: the attribute's value, or \<open>None\<close>.\<close>

fun get_attr :: "node \<Rightarrow> string \<Rightarrow> string option" where
  "get_attr (Text s) name = None"
| "get_attr (Element t c a ch) name = map_of a name"

text \<open>
  The elements of a subtree in document order, the root first, each with its ancestors;
  \<open>descendants\<close> leaves the root out, as \<open>select\<close>, \<open>select_one\<close>, \<open>find\<close> and
  \<open>find_all\<close> do.
\<close>

fun walk :: "node list \<Rightarrow> node \<Rightarrow> located list" where
  "walk anc (Text s) = []"
| "walk anc (Element t c a ch) =
     (anc, Element t c a ch) # concat (map (walk (Element t c a ch # anc)) ch)"

fun descendants :: "located \<Rightarrow> located list" where
  "descendants (anc, el) = concat (map (walk (el # anc)) (node_children el))"

subsection \<open>The selectors the source uses\<close>

text \<open>
  A compound selector is a tag name, a class, or both (\<open>article.article-search-listing\<close>);
  a complex selector is a chain of compound selectors joined by the descendant combinator
  (\<open>h3 a\<close>); a selector list is a comma-separated list of those.
\<close>

datatype compound = Tag string | Class string | TagClass string string

type_synonym selector = "compound list list"

fun matches_compound :: "compound \<Rightarrow> node \<Rightarrow> bool" where
  "matches_compound (Tag t) n = (is_element n \<and> node_tag n = t)"
| "matches_compound (Class c) n = (is_element n \<and> c \<in> set (node_classes n))"
| "matches_compound (TagClass t c) n =
     (is_element n \<and> node_tag n = t \<and> c \<in> set (node_classes n))"

text \<open>
  The remaining compounds of a chain, innermost first, against the ancestors, nearest first:
  each needs an ancestor further out than the one found for the compound before it.
\<close>

fun matches_ancestors :: "compound list \<Rightarrow> node list \<Rightarrow> bool" where
  "matches_ancestors [] anc = True"
| "matches_ancestors (s # ss) [] = False"
| "matches_ancestors (s # ss) (p # anc) =
     ((matches_compound s p \<and> matches_ancestors ss anc) \<or> matches_ancestors (s # ss) anc)"

fun matches_complex :: "compound list \<Rightarrow> located \<Rightarrow> bool" where
  "matches_complex chain (anc, el) =
     (case rev chain of
        [] \<Rightarrow> False
      | s # ss \<Rightarrow> matches_compound s el \<and> matches_ancestors ss anc)"

definition matches :: "selector \<Rightarrow> located \<Rightarrow> bool" where
  "matches sel l = list_ex (\<lambda>chain. matches_complex chain l) sel"

definition select :: "selector \<Rightarrow> located \<Rightarrow> located list" where
  "select sel root = filter (matches sel) (descendants root)"

definition select_one :: "selector \<Rightarrow> located \<Rightarrow> located option" where
  "select_one sel root = (case select sel root of [] \<Rightarrow> None | l # _ \<Rightarrow> Some l)"

definition find_all :: "string \<Rightarrow> located \<Rightarrow> located list" where
  "find_all name root = filter (\<lambda>l. node_tag (snd l) = name) (descendants root)"

definition find :: "string \<Rightarrow> located \<Rightarrow> located option" where
  "find name root = (case find_all name root of [] \<Rightarrow> None | l # _ \<Rightarrow> Some l)"

subsection \<open>Text of an element\<close>

text \<open>
  \<open>str.strip()\<close> removes the white space at both ends; below code point 256 the white
  space characters are 9 to 13, 28 to 32, 133 and 160.
\<close>

definition isspace :: "char \<Rightarrow> bool" where
  "isspace c = ((of_char c :: nat) \<in> {9, 10, 11, 12, 13, 28, 29, 30, 31, 32, 133, 160})"

definition strip :: "string \<Rightarrow> string" where
  "strip s = rev (dropWhile isspace (rev (dropWhile isspace s)))"

fun strings :: "node \<Rightarrow> string list" where
  "strings (Text s) = [s]"
| "strings (Element t c a ch) = concat (map strings ch)"

fun join :: "string \<Rightarrow> string list \<Rightarrow> string" where
  "join sep [] = []"
| "join sep [s] = s"
| "join sep (s # t # ss) = s @ sep @ join sep (t # ss)"

text \<open>
  \<open>get_text(separator, strip=True)\<close>: every string below the element is stripped, the
  empty ones are dropped, and the rest is joined with the separator.
\<close>

definition get_text_strip :: "string \<Rightarrow> node \<Rightarrow> string" where
  "get_text_strip sep n = join sep (filter (\<lambda>s. s \<noteq> []) (map strip (strings n)))"

section \<open>Article selection (lines 37 to 42 of \<open>parse_articles\<close>)\<close>

definition S1 :: selector where
  "S1 = [[TagClass ''article'' ''article-search-listing'']]"

definition S2 :: selector where
  "S2 = [[Class ''views-row'', Tag ''article'']]"

text \<open>
  \<open>if not articles\<close> tests the list returned by the previous strategy for emptiness.
\<close>

definition select_articles :: "located \<Rightarrow> located list" where
  "select_articles soup =
     (let articles = select S1 soup;
          articles = (if articles = [] then select S2 soup else articles);
          articles = (if articles = [] then find_all ''article'' soup else articles)
      in articles)"

section \<open>Field extraction (lines 44 to 81 of \<open>parse_articles\<close>)\<close>

definition BASE_URL :: string where
  "BASE_URL = ''https://www.csis.org''"

text \<open>\<open>x or y\<close> on values that are either \<open>None\<close> or a tag, which is always true.\<close>

fun or_else :: "'a option \<Rightarrow> 'a option \<Rightarrow> 'a option" where
  "or_else (Some x) y = Some x"
| "or_else None y = y"

text \<open>
  \<open>a_tag = a.select_one("h3 a") or a.select_one("a")\<close>.
\<close>

definition choose_anchor :: "located \<Rightarrow> located option" where
  "choose_anchor a = or_else (select_one [[Tag ''h3'', Tag ''a'']] a) (select_one [[Tag ''a'']] a)"

definition extract_title :: "located \<Rightarrow> string" where
  "extract_title a_tag =
     (case select_one [[Tag ''span'']] a_tag of
        Some title_span \<Rightarrow> get_text_strip [] (snd title_span)
      | None \<Rightarrow> get_text_strip [] (snd a_tag))"

definition extract_summary :: "located \<Rightarrow> string" where
  "extract_summary a =
     (case or_else (select_one [[Class ''search-listing--summary'']] a)
             (or_else (select_one [[Class ''teaser'']] a) (find ''p'' a)) of
        Some summary_div \<Rightarrow> get_text_strip '' '' (snd summary_div)
      | None \<Rightarrow> [])"

text \<open>
  The date: the \<open>datetime\<close> attribute of the first \<open>time\<close> element when it is present and
  not empty, else that element's text, else the text of the first element carrying one of
  five classes, else \<open>None\<close>.
\<close>

definition extract_pubdate :: "located \<Rightarrow> string option" where
  "extract_pubdate a =
     (case find ''time'' a of
        Some time_tag \<Rightarrow>
          (case get_attr (snd time_tag) ''datetime'' of
             Some d \<Rightarrow> if d \<noteq> [] then Some d else Some (get_text_strip [] (snd time_tag))
           | None \<Rightarrow> Some (get_text_strip [] (snd time_tag)))
      | None \<Rightarrow>
          (case select_one [[Class ''contributors''], [Class ''credit''], [Class ''byline''],
                            [Class ''submitted''], [Class ''date'']] a of
             Some date_meta \<Rightarrow> Some (get_text_strip '' '' (snd date_meta))
           | None \<Rightarrow> None))"

text \<open>
  The body of the \<open>try\<close> block for one candidate. \<open>Inr None\<close> is a \<open>continue\<close>,
  \<open>Inr (Some r)\<close> the record that is appended, \<open>Inl e\<close> an exception raised inside the
  block. \<open>urljoin\<close> is the library function; it raises \<open>ValueError\<close> on some inputs, so it
  is a parameter with a result of type \<open>exn + string\<close>.
\<close>

definition extract_record :: "(string \<Rightarrow> string \<Rightarrow> exn + string) \<Rightarrow> located \<Rightarrow> exn + item option" where
  "extract_record urljoin a =
     (case choose_anchor a of
        None \<Rightarrow> Inr None
      | Some a_tag \<Rightarrow>
          (let ttl = extract_title a_tag in
           case get_attr (snd a_tag) ''href'' of
             None \<Rightarrow> Inr None
           | Some href \<Rightarrow>
               if href = [] then Inr None
               else (case urljoin BASE_URL href of
                       Inl e \<Rightarrow> Inl e
                     | Inr lnk \<Rightarrow>
                         Inr (Some \<lparr>title = ttl, link = lnk,
                                    summary = extract_summary a,
                                    pubdate_raw = extract_pubdate a\<rparr>))))"

text \<open>
  The loop over the candidates: \<open>except Exception: continue\<close> turns an exception into a
  skipped candidate.
\<close>

fun extract_loop :: "(string \<Rightarrow> string \<Rightarrow> exn + string) \<Rightarrow> located list \<Rightarrow> item list \<Rightarrow> item list"
  where
  "extract_loop urljoin [] results = results"
| "extract_loop urljoin (a # articles) results =
     (case extract_record urljoin a of
        Inr (Some r) \<Rightarrow> extract_loop urljoin articles (results @ [r])
      | Inr None \<Rightarrow> extract_loop urljoin articles results
      | Inl e \<Rightarrow> extract_loop urljoin articles results)"

text \<open>
  \<open>parse_articles\<close>, from the parsed page on: selection, extraction, deduplication.
\<close>

definition parse_articles :: "(string \<Rightarrow> string \<Rightarrow> exn + string) \<Rightarrow> located \<Rightarrow> item list" where
  "parse_articles urljoin soup =
     dedupe_and_limit MAX_ITEMS (extract_loop urljoin (select_articles soup) [])"

section \<open>Date normalisation (\<open>normalize_pubdate\<close>)\<close>

subsection \<open>Dates and times\<close>

text \<open>
  A \<open>datetime\<close> value: the calendar fields, and \<open>tzinfo\<close>, which is \<open>None\<close> for a naive
  value and otherwise the offset from UTC, kept in microseconds (the library allows an
  offset any number of microseconds strictly between minus and plus 24 hours).
\<close>

record datetime =
  year :: nat
  month :: nat
  day :: nat
  hour :: nat
  minute :: nat
  second :: nat
  microsecond :: nat
  tzinfo :: "int option"

definition utc :: "int option" where
  "utc = Some 0"

definition is_leap :: "nat \<Rightarrow> bool" where
  "is_leap y = (y mod 4 = 0 \<and> (y mod 100 \<noteq> 0 \<or> y mod 400 = 0))"

definition days_in_month :: "nat \<Rightarrow> nat \<Rightarrow> nat" where
  "days_in_month y m =
     (if m = 2 then (if is_leap y then 29 else 28)
      else if m \<in> {4, 6, 9, 11} then 30 else 31)"

definition days_before_year :: "nat \<Rightarrow> nat" where
  "days_before_year y = (y - 1) * 365 + (y - 1) div 4 - (y - 1) div 100 + (y - 1) div 400"

definition days_before_month :: "nat \<Rightarrow> nat \<Rightarrow> nat" where
  "days_before_month y m = sum_list (map (days_in_month y) [1..<m])"

definition toordinal :: "nat \<Rightarrow> nat \<Rightarrow> nat \<Rightarrow> nat" where
  "toordinal y m d = days_before_year y + days_before_month y m + d"

text \<open>Monday is 0.\<close>

definition weekday :: "datetime \<Rightarrow> nat" where
  "weekday dt = (toordinal (year dt) (month dt) (day dt) + 6) mod 7"

subsection \<open>Numbers as text\<close>

definition digit_char :: "nat \<Rightarrow> char" where
  "digit_char n = ''0123456789'' ! (n mod 10)"

fun show_nat :: "nat \<Rightarrow> string" where
  "show_nat n = (if n < 10 then [digit_char n] else show_nat (n div 10) @ [digit_char (n mod 10)])"

definition pad2 :: "nat \<Rightarrow> string" where
  "pad2 n = [digit_char (n div 10 mod 10), digit_char (n mod 10)]"

definition pad6 :: "nat \<Rightarrow> string" where
  "pad6 n = [digit_char (n div 100000 mod 10), digit_char (n div 10000 mod 10),
             digit_char (n div 1000 mod 10), digit_char (n div 100 mod 10),
             digit_char (n div 10 mod 10), digit_char (n mod 10)]"

definition is_digit :: "char \<Rightarrow> bool" where
  "is_digit c = (48 \<le> (of_char c :: nat) \<and> (of_char c :: nat) \<le> 57)"

text \<open>
  \<open>int(s)\<close> on the text of a matched group: white space around the digits is ignored,
  anything but a non-empty run of digits raises \<open>ValueError\<close> (\<open>None\<close> here).
\<close>

definition py_int :: "string \<Rightarrow> nat option" where
  "py_int s =
     (let t = strip s in
      if t \<noteq> [] \<and> list_all is_digit t
      then Some (foldl (\<lambda>n c. 10 * n + (of_char c - 48)) 0 t)
      else None)"

subsection \<open>Formatting: \<open>strftime\<close>\<close>

definition weekday_names :: "string list" where
  "weekday_names = [''Mon'', ''Tue'', ''Wed'', ''Thu'', ''Fri'', ''Sat'', ''Sun'']"

definition month_abbrs :: "string list" where
  "month_abbrs = [''Jan'', ''Feb'', ''Mar'', ''Apr'', ''May'', ''Jun'',
                  ''Jul'', ''Aug'', ''Sep'', ''Oct'', ''Nov'', ''Dec'']"

text \<open>
  \<open>%z\<close>: the sign, two digits of hours and two of minutes; then two digits of seconds
  when the offset is not a whole number of minutes, and a point and six digits of
  microseconds when it is not a whole number of seconds. A naive value prints nothing.
\<close>

definition format_utcoffset :: "int option \<Rightarrow> string" where
  "format_utcoffset tz =
     (case tz of
        None \<Rightarrow> []
      | Some off \<Rightarrow>
          (let sign = (if off < 0 then CHR ''-'' else CHR ''+'');
               a = nat \<bar>off\<bar>;
               microseconds = a mod 1000000;
               total = a div 1000000;
               seconds = total mod 60;
               minutes = total div 60 mod 60;
               hours = total div 3600
           in sign # pad2 hours @ pad2 minutes @
              (if microseconds \<noteq> 0 then pad2 seconds @ ''.'' @ pad6 microseconds
               else if seconds \<noteq> 0 then pad2 seconds
               else [])))"

text \<open>
  The directives of the output format. The year is printed as the C library on Linux
  prints it, without padding; from the year 1000 on this is the four-digit year.
\<close>

definition format_directive :: "char \<Rightarrow> datetime \<Rightarrow> string" where
  "format_directive d dt =
     (if d = CHR ''a'' then weekday_names ! weekday dt
      else if d = CHR ''d'' then pad2 (day dt)
      else if d = CHR ''b'' then month_abbrs ! (month dt - 1)
      else if d = CHR ''Y'' then show_nat (year dt)
      else if d = CHR ''H'' then pad2 (hour dt)
      else if d = CHR ''M'' then pad2 (minute dt)
      else if d = CHR ''S'' then pad2 (second dt)
      else if d = CHR ''z'' then format_utcoffset (tzinfo dt)
      else [CHR ''%'', d])"

fun strftime :: "string \<Rightarrow> datetime \<Rightarrow> string" where
  "strftime [] dt = []"
| "strftime [c] dt = [c]"
| "strftime (c # d # cs) dt =
     (if c = CHR ''%'' then format_directive d dt @ strftime cs dt
      else c # strftime (d # cs) dt)"

definition OUTPUT_FORMAT :: string where
  "OUTPUT_FORMAT = ''%a, %d %b %Y %H:%M:%S %z''"

subsection \<open>Parsing: \<open>strptime\<close>\<close>

text \<open>
  The library turns a format into a regular expression, matches it against the start of
  the text with case ignored, and rejects the text when the match does not reach its end.
  A format is a list of items: a directive, a run of white space (it matches one or more
  white space characters), or a literal character.
\<close>

datatype fitem = Directive char | Spaces | Literal char

function compile_format :: "string \<Rightarrow> fitem list" where
  "compile_format [] = []"
| "compile_format (c # cs) =
     (if isspace c then Spaces # compile_format (dropWhile isspace cs)
      else if c = CHR ''%'' then
        (case cs of [] \<Rightarrow> [Literal c] | d # rest \<Rightarrow> Directive d # compile_format rest)
      else Literal c # compile_format cs)"
  by pat_completeness auto
termination
  by (relation "measure length") (auto simp: less_Suc_eq_le length_dropWhile_le)

declare compile_format.simps [simp del]

text \<open>The directives of a compiled format, in order: the names of the groups a match sets.\<close>

fun directive_keys :: "fitem list \<Rightarrow> char list" where
  "directive_keys [] = []"
| "directive_keys (Directive d # its) = d # directive_keys its"
| "directive_keys (Spaces # its) = directive_keys its"
| "directive_keys (Literal c # its) = directive_keys its"


definition upper_letters :: string where
  "upper_letters = ''ABCDEFGHIJKLMNOPQRSTUVWXYZ''"

definition lower_letters :: string where
  "lower_letters = ''abcdefghijklmnopqrstuvwxyz''"

definition ascii_lower :: "char \<Rightarrow> char" where
  "ascii_lower c = (case map_of (zip upper_letters lower_letters) c of Some l \<Rightarrow> l | None \<Rightarrow> c)"

definition ascii_upper :: "char \<Rightarrow> char" where
  "ascii_upper c = (case map_of (zip lower_letters upper_letters) c of Some u \<Rightarrow> u | None \<Rightarrow> c)"

text \<open>
  One alternative of a group is a sequence of character classes, each class given by the
  characters it holds. For a word matched with case ignored every class holds the two
  cases of a letter.
\<close>

definition digits :: string where
  "digits = ''0123456789''"

definition nonzero :: string where
  "nonzero = ''123456789''"

definition any_case :: "string \<Rightarrow> string list" where
  "any_case w = map (\<lambda>c. [ascii_lower c, ascii_upper c]) w"

definition month_abbrs_lower :: "string list" where
  "month_abbrs_lower = [''jan'', ''feb'', ''mar'', ''apr'', ''may'', ''jun'',
                        ''jul'', ''aug'', ''sep'', ''oct'', ''nov'', ''dec'']"

definition month_names_lower :: "string list" where
  "month_names_lower = [''january'', ''february'', ''march'', ''april'', ''may'', ''june'',
                        ''july'', ''august'', ''september'', ''october'', ''november'',
                        ''december'']"

text \<open>
  The offset group \<open>[+-]\d\d:?[0-5]\d(:?[0-5]\d(\.\d{1,6})?)?|Z\<close>, its optional parts
  expanded in the order in which the matcher tries them: present before absent, longer
  before shorter. The \<open>Z\<close> is in upper case only.
\<close>

definition offset_alternatives :: "string list list" where
  "offset_alternatives =
     concat (map (\<lambda>colon1.
        concat (map (\<lambda>colon2.
            map (\<lambda>n. [''+-'', digits, digits] @ colon1 @ [''012345'', digits] @ colon2
                       @ [''012345'', digits] @ [''.''] @ replicate n digits)
                [6, 5, 4, 3, 2, 1]
            @ [[''+-'', digits, digits] @ colon1 @ [''012345'', digits] @ colon2
                 @ [''012345'', digits]])
          [['':''], []])
        @ [[''+-'', digits, digits] @ colon1 @ [''012345'', digits]])
      [['':''], []])
     @ [[''Z'']]"

text \<open>
  The alternatives of each directive, in the order of the library's table; names are
  ordered by falling length as the library orders them.
\<close>

definition alternatives :: "char \<Rightarrow> string list list" where
  "alternatives d =
     (if d = CHR ''d'' then [[''3'', ''01''], [''12'', digits], [''0'', nonzero], [nonzero],
                             ['' '', nonzero]]
      else if d = CHR ''f'' then map (\<lambda>n. replicate n digits) [6, 5, 4, 3, 2, 1]
      else if d = CHR ''H'' then [[''2'', ''0123''], [''01'', digits], [digits]]
      else if d = CHR ''m'' then [[''1'', ''012''], [''0'', nonzero], [nonzero]]
      else if d = CHR ''M'' then [[''012345'', digits], [digits]]
      else if d = CHR ''S'' then [[''6'', ''01''], [''012345'', digits], [digits]]
      else if d = CHR ''Y'' then [[digits, digits, digits, digits]]
      else if d = CHR ''z'' then offset_alternatives
      else if d = CHR ''B'' then
        map any_case (rev (sort_key length (rev month_names_lower)))
      else if d = CHR ''b'' then map any_case month_abbrs_lower
      else [])"

fun match_classes :: "string list \<Rightarrow> string \<Rightarrow> (string \<times> string) option" where
  "match_classes [] s = Some ([], s)"
| "match_classes (cl # cls) [] = None"
| "match_classes (cl # cls) (c # s) =
     (if c \<in> set cl
      then (case match_classes cls s of
              None \<Rightarrow> None
            | Some (m, rest) \<Rightarrow> Some (c # m, rest))
      else None)"

text \<open>
  The ways one item can match at the start of the text, best first: the named groups it
  sets, and the rest of the text.
\<close>

definition match_item :: "fitem \<Rightarrow> string \<Rightarrow> ((char \<times> string) list \<times> string) list" where
  "match_item it s =
     (case it of
        Directive d \<Rightarrow>
          List.map_filter (\<lambda>alt. case match_classes alt s of
                               None \<Rightarrow> None
                             | Some (m, rest) \<Rightarrow> Some ([(d, m)], rest))
            (alternatives d)
      | Spaces \<Rightarrow>
          map (\<lambda>n. ([], drop n s)) (rev [1..<Suc (length (takeWhile isspace s))])
      | Literal c \<Rightarrow>
          (case match_classes [[ascii_lower c, ascii_upper c]] s of
             None \<Rightarrow> []
           | Some (m, rest) \<Rightarrow> [([], rest)]))"

fun match_items :: "fitem list \<Rightarrow> string \<Rightarrow> ((char \<times> string) list \<times> string) list" where
  "match_items [] s = [([], s)]"
| "match_items (it # its) s =
     concat (map (\<lambda>(g, rest). map (\<lambda>(gs, r). (g @ gs, r)) (match_items its rest))
                 (match_item it s))"


text \<open>
  The values collected from the named groups, with the defaults the library starts from;
  the year is \<open>None\<close> until a group sets it.
\<close>

record parsed =
  p_year :: "nat option"
  p_month :: nat
  p_day :: nat
  p_hour :: nat
  p_minute :: nat
  p_second :: nat
  p_fraction :: nat
  p_gmtoff :: "int option"
  p_gmtoff_fraction :: int

definition parsed_defaults :: parsed where
  "parsed_defaults =
     \<lparr>p_year = None, p_month = 1, p_day = 1, p_hour = 0, p_minute = 0, p_second = 0,
      p_fraction = 0, p_gmtoff = None, p_gmtoff_fraction = 0\<rparr>"

text \<open>\<open>s[a:b]\<close> and \<open>names.index(w)\<close>.\<close>

definition slice :: "string \<Rightarrow> nat \<Rightarrow> nat \<Rightarrow> string" where
  "slice s a b = take (b - a) (drop a s)"

fun index_of :: "string list \<Rightarrow> string \<Rightarrow> nat option" where
  "index_of [] w = None"
| "index_of (x # xs) w = (if x = w then Some 0 else map_option Suc (index_of xs w))"

definition int_group :: "string \<Rightarrow> exn + nat" where
  "int_group s = (case py_int s of None \<Rightarrow> Inl (ValueError ''invalid literal for int()'')
                                 | Some n \<Rightarrow> Inr n)"

text \<open>
  The offset group. A colon after the hours is removed, and then a colon is required after
  the minutes when seconds follow; without the first colon a colon before the seconds makes
  \<open>int\<close> fail. The offset is kept as whole seconds and microseconds, both negated after a
  minus sign.
\<close>

definition convert_offset :: "string \<Rightarrow> exn + int \<times> int" where
  "convert_offset z0 =
     (if z0 = ''Z'' then Inr (0, 0)
      else if length z0 \<le> 3 then Inl (ValueError ''string index out of range'')
      else
        (case (if z0 ! 3 = CHR '':'' then
                 (let z = take 3 z0 @ drop 4 z0 in
                  if length z > 5 then
                    (if z ! 5 \<noteq> CHR '':'' then Inl (ValueError ''Inconsistent use of :'')
                     else Inr (take 5 z @ drop 6 z))
                  else Inr z)
               else Inr z0) of
           Inl e \<Rightarrow> Inl e
         | Inr z \<Rightarrow>
             (case int_group (slice z 1 3) of
                Inl e \<Rightarrow> Inl e
              | Inr hours \<Rightarrow>
                 (case int_group (slice z 3 5) of
                    Inl e \<Rightarrow> Inl e
                  | Inr minutes \<Rightarrow>
                     (case (if slice z 5 7 = [] then Inr 0 else int_group (slice z 5 7)) of
                        Inl e \<Rightarrow> Inl e
                      | Inr seconds \<Rightarrow>
                         (let gmtoff = int (hours * 60 * 60 + minutes * 60 + seconds);
                              gmtoff_remainder = drop 8 z
                          in (case int_group (gmtoff_remainder
                                        @ replicate (6 - length gmtoff_remainder) CHR ''0'') of
                                Inl e \<Rightarrow> Inl e
                              | Inr gmtoff_fraction \<Rightarrow>
                                  if take 1 z = ''-''
                                  then Inr (- gmtoff, - int gmtoff_fraction)
                                  else Inr (gmtoff, int gmtoff_fraction))))))))"

definition month_index :: "string list \<Rightarrow> string \<Rightarrow> exn + nat" where
  "month_index names w =
     (case index_of names (map ascii_lower w) of
        None \<Rightarrow> Inl (ValueError ''not in list'')
      | Some i \<Rightarrow> Inr (Suc i))"

text \<open>One step of the loop over the named groups.\<close>

definition convert_group :: "char \<times> string \<Rightarrow> parsed \<Rightarrow> exn + parsed" where
  "convert_group g p =
     (let key = fst g; txt = snd g in
      if key = CHR ''Y'' then map_sum id (\<lambda>n. p\<lparr>p_year := Some n\<rparr>) (int_group txt)
      else if key = CHR ''m'' then map_sum id (\<lambda>n. p\<lparr>p_month := n\<rparr>) (int_group txt)
      else if key = CHR ''B'' then
        map_sum id (\<lambda>n. p\<lparr>p_month := n\<rparr>) (month_index month_names_lower txt)
      else if key = CHR ''b'' then
        map_sum id (\<lambda>n. p\<lparr>p_month := n\<rparr>) (month_index month_abbrs_lower txt)
      else if key = CHR ''d'' then map_sum id (\<lambda>n. p\<lparr>p_day := n\<rparr>) (int_group txt)
      else if key = CHR ''H'' then map_sum id (\<lambda>n. p\<lparr>p_hour := n\<rparr>) (int_group txt)
      else if key = CHR ''M'' then map_sum id (\<lambda>n. p\<lparr>p_minute := n\<rparr>) (int_group txt)
      else if key = CHR ''S'' then map_sum id (\<lambda>n. p\<lparr>p_second := n\<rparr>) (int_group txt)
      else if key = CHR ''f'' then
        map_sum id (\<lambda>n. p\<lparr>p_fraction := n\<rparr>)
          (int_group (txt @ replicate (6 - length txt) CHR ''0''))
      else if key = CHR ''z'' then
        map_sum id (\<lambda>(off, frac). p\<lparr>p_gmtoff := Some off, p_gmtoff_fraction := frac\<rparr>)
          (convert_offset txt)
      else Inr p)"

fun convert_groups :: "(char \<times> string) list \<Rightarrow> parsed \<Rightarrow> exn + parsed" where
  "convert_groups [] p = Inr p"
| "convert_groups (g # gs) p =
     (case convert_group g p of Inl e \<Rightarrow> Inl e | Inr p' \<Rightarrow> convert_groups gs p')"

text \<open>
  The constructors at the end: the date must exist, the second must be below 60 (the
  pattern lets 60 and 61 through), and the offset must lie strictly between minus and plus
  24 hours. A missing year counts as 1900.
\<close>

definition build_datetime :: "parsed \<Rightarrow> exn + datetime" where
  "build_datetime p =
     (let y = (case p_year p of None \<Rightarrow> 1900 | Some n \<Rightarrow> n) in
      if \<not> (1 \<le> y \<and> y \<le> 9999) then Inl (ValueError ''year is out of range'')
      else if \<not> (1 \<le> p_month p \<and> p_month p \<le> 12) then Inl (ValueError ''month must be in 1..12'')
      else if \<not> (1 \<le> p_day p \<and> p_day p \<le> days_in_month y (p_month p))
        then Inl (ValueError ''day is out of range for month'')
      else if \<not> p_hour p \<le> 23 then Inl (ValueError ''hour must be in 0..23'')
      else if \<not> p_minute p \<le> 59 then Inl (ValueError ''minute must be in 0..59'')
      else if \<not> p_second p \<le> 59 then Inl (ValueError ''second must be in 0..59'')
      else if \<not> p_fraction p \<le> 999999 then Inl (ValueError ''microsecond must be in 0..999999'')
      else
        (case p_gmtoff p of
           None \<Rightarrow>
             Inr \<lparr>year = y, month = p_month p, day = p_day p, hour = p_hour p,
                  minute = p_minute p, second = p_second p, microsecond = p_fraction p,
                  tzinfo = None\<rparr>
         | Some gmtoff \<Rightarrow>
             (let off = gmtoff * 1000000 + p_gmtoff_fraction p in
              if \<not> (- 86400000000 < off \<and> off < 86400000000)
              then Inl (ValueError ''offset must be strictly between -24 and 24 hours'')
              else Inr \<lparr>year = y, month = p_month p, day = p_day p, hour = p_hour p,
                        minute = p_minute p, second = p_second p, microsecond = p_fraction p,
                        tzinfo = Some off\<rparr>)))"

text \<open>
  \<open>datetime.strptime(text, format)\<close>: the first match of the pattern, which must reach
  the end of the text.
\<close>

definition strptime :: "string \<Rightarrow> string \<Rightarrow> exn + datetime" where
  "strptime data_string format =
     (case match_items (compile_format format) data_string of
        [] \<Rightarrow> Inl (ValueError ''time data does not match format'')
      | (found, rest) # _ \<Rightarrow>
          if rest \<noteq> [] then Inl (ValueError ''unconverted data remains'')
          else (case convert_groups found parsed_defaults of
                  Inl e \<Rightarrow> Inl e
                | Inr p \<Rightarrow> build_datetime p))"

subsection \<open>\<open>normalize_pubdate\<close> (lines 95 to 129)\<close>

definition ISO_FORMATS :: "string list" where
  "ISO_FORMATS = [''%Y-%m-%dT%H:%M:%S%z'', ''%Y-%m-%dT%H:%M:%S.%f%z'',
                  ''%Y-%m-%dT%H:%M:%S'', ''%Y-%m-%d'']"

definition HUMAN_FORMATS :: "string list" where
  "HUMAN_FORMATS = [''%b %d, %Y'', ''%B %d, %Y'', ''%d %b %Y'', ''%d %B %Y'', ''%Y/%m/%d'']"

text \<open>
  The first loop: an exception of \<open>strptime\<close> moves on to the next format; a naive result
  is given the UTC zone, a result with an offset keeps it.
\<close>

fun iso_loop :: "string list \<Rightarrow> string \<Rightarrow> datetime option" where
  "iso_loop [] s = None"
| "iso_loop (fmt # fmts) s =
     (case strptime s fmt of
        Inr dt \<Rightarrow> Some (if tzinfo dt = None then dt\<lparr>tzinfo := utc\<rparr> else dt)
      | Inl e \<Rightarrow> iso_loop fmts s)"

text \<open>The second loop: the result always gets the UTC zone.\<close>

fun human_loop :: "string list \<Rightarrow> string \<Rightarrow> datetime option" where
  "human_loop [] s = None"
| "human_loop (fmt # fmts) s =
     (case strptime s fmt of
        Inr dt \<Rightarrow> Some (dt\<lparr>tzinfo := utc\<rparr>)
      | Inl e \<Rightarrow> human_loop fmts s)"

text \<open>
  The body of the outer \<open>try\<close>; \<open>Inl\<close> is the \<open>ValueError\<close> raised when no format
  has matched.
\<close>

definition normalize_try :: "string \<Rightarrow> exn + string" where
  "normalize_try raw =
     (let dt = iso_loop ISO_FORMATS (strip raw);
          dt = (if dt = None then human_loop HUMAN_FORMATS (strip raw) else dt)
      in case dt of
           None \<Rightarrow> Inl (ValueError [])
         | Some d \<Rightarrow> Inr (strftime OUTPUT_FORMAT d))"

text \<open>
  \<open>normalize_pubdate\<close>; the first argument is the value of \<open>datetime.now(timezone.utc)\<close>
  at the time of the call.
\<close>

definition normalize_pubdate :: "datetime \<Rightarrow> string option \<Rightarrow> string" where
  "normalize_pubdate now raw_opt =
     (case raw_opt of
        None \<Rightarrow> strftime OUTPUT_FORMAT now
      | Some raw \<Rightarrow>
          if raw = [] then strftime OUTPUT_FORMAT now
          else (case normalize_try raw of
                  Inr s \<Rightarrow> s
                | Inl e \<Rightarrow> strftime OUTPUT_FORMAT now))"

section \<open>Concrete pages and candidates\<close>

text \<open>
  A stand-in for \<open>urllib.parse.urljoin\<close> on the references that the concrete pages below
  use: against a base without a path, an absolute path is appended to the base, and the
  reference \<open>http://[\<close> makes the library raise \<open>ValueError\<close>.
\<close>

definition urljoin_stub :: "string \<Rightarrow> string \<Rightarrow> exn + string" where
  "urljoin_stub base url =
     (if url = ''http://['' then Inl (ValueError ''Invalid IPv6 URL'') else Inr (base @ url))"

text \<open>
  A listing page with two articles inside a \<open>views-row\<close> container, only the first of
  which carries the class \<open>article-search-listing\<close>; a page without any article; a page
  whose only article links an image.
\<close>

definition page_listing :: located where
  "page_listing = ([], Element ''[document]'' [] []
     [Element ''div'' [''views-row''] []
        [Element ''article'' [''article-search-listing''] []
           [Element ''h3'' [] [] [Element ''a'' [] [(''href'', ''/a'')]
               [Element ''span'' [] [] [Text '' Title A '']]]],
         Element ''article'' [] []
           [Element ''a'' [] [(''href'', ''/b'')] [Text ''Title B'']]]])"

definition page_empty :: located where
  "page_empty = ([], Element ''[document]'' [] [] [Element ''p'' [] [] [Text ''nothing'']])"

definition page_image_link :: located where
  "page_image_link = ([], Element ''[document]'' [] []
     [Element ''article'' [] []
        [Element ''a'' [] [(''href'', ''/b'')] [Element ''img'' [] [(''src'', ''/i.png'')] []]]])"

text \<open>
  Single candidates: with a heading link, without any anchor, with an anchor that has no
  \<open>href\<close>, and with a reference that \<open>urljoin\<close> rejects.
\<close>

definition cand_titled :: located where
  "cand_titled = ([], Element ''article'' [] []
     [Element ''h3'' [] [] [Element ''a'' [] [(''href'', ''/a'')]
        [Element ''span'' [] [] [Text '' Title A '']]]])"

definition cand_no_anchor :: located where
  "cand_no_anchor = ([], Element ''article'' [] [] [Element ''p'' [] [] [Text ''no link here'']])"

definition cand_no_href :: located where
  "cand_no_href = ([], Element ''article'' [] [] [Element ''a'' [] [(''name'', ''top'')] [Text ''T'']])"

definition cand_bad_href :: located where
  "cand_bad_href = ([], Element ''article'' [] [] [Element ''a'' [] [(''href'', ''http://['')] [Text ''T'']])"

definition item_titled :: item where
  "item_titled =
     \<lparr>title = ''Title A'', link = ''https://www.csis.org/a'', summary = [], pubdate_raw = None\<rparr>"

text \<open>A candidate whose link holds only an image, and the record it yields.\<close>

definition cand_image_link :: located where
  "cand_image_link = ([], Element ''article'' [] []
     [Element ''a'' [] [(''href'', ''/b'')] [Element ''img'' [] [(''src'', ''/i.png'')] []]])"

definition item_untitled :: item where
  "item_untitled =
     \<lparr>title = [], link = ''https://www.csis.org/b'', summary = [], pubdate_raw = None\<rparr>"

text \<open>The record that one candidate contributes to \<open>results\<close>, if any.\<close>

definition emitted :: "(string \<Rightarrow> string \<Rightarrow> exn + string) \<Rightarrow> located \<Rightarrow> item option" where
  "emitted urljoin a = (case extract_record urljoin a of Inr (Some r) \<Rightarrow> Some r | _ \<Rightarrow> None)"

text \<open>
  Concrete dates: midnight of 5 March 2024 in UTC, and ten o'clock of that day at the
  offsets of five hours and of five hours, thirty minutes and fifteen seconds (in
  microseconds); and a value for the current time.
\<close>

definition date_2024_03_05 :: datetime where
  "date_2024_03_05 = \<lparr>year = 2024, month = 3, day = 5, hour = 0, minute = 0, second = 0,
                        microsecond = 0, tzinfo = utc\<rparr>"

definition date_plus_0500 :: datetime where
  "date_plus_0500 = \<lparr>year = 2024, month = 3, day = 5, hour = 10, minute = 0, second = 0,
                       microsecond = 0, tzinfo = Some 18000000000\<rparr>"

definition date_plus_053015 :: datetime where
  "date_plus_053015 = \<lparr>year = 2024, month = 3, day = 5, hour = 10, minute = 0, second = 0,
                         microsecond = 0, tzinfo = Some 19815000000\<rparr>"

definition now_example :: datetime where
  "now_example = \<lparr>year = 2026, month = 11, day = 4, hour = 1, minute = 2, second = 3,
                    microsecond = 5, tzinfo = utc\<rparr>"

section \<open>Feed assembly (\<open>build_rss\<close>)\<close>

subsection \<open>Element trees and their serialisation\<close>

text \<open>
  The texts of the feed and the document written are sequences of code points, given as
  natural numbers: the channel title holds a dash above code point 255. The file holds
  the UTF-8 encoding of the document; the model stays with the code points.
\<close>

type_synonym ustring = "nat list"

definition ustr :: "string \<Rightarrow> ustring" where
  "ustr s = map of_char s"

text \<open>
  An \<open>ElementTree\<close> element: tag, attributes, text (\<open>None\<close> until it is assigned) and
  children. No element of the feed has a tail.
\<close>

datatype xml =
  XElement (xtag: string) (attrib: "(string \<times> ustring) list") (xtext: "ustring option")
    (xchildren: "xml list")

text \<open>\<open>text.replace(old, new)\<close> for a single character \<open>old\<close>.\<close>

definition replace :: "nat \<Rightarrow> ustring \<Rightarrow> ustring \<Rightarrow> ustring" where
  "replace old new s = concat (map (\<lambda>c. if c = old then new else [c]) s)"

definition escape_cdata :: "ustring \<Rightarrow> ustring" where
  "escape_cdata s =
     replace 62 (ustr ''&gt;'') (replace 60 (ustr ''&lt;'') (replace 38 (ustr ''&amp;'') s))"

definition escape_attrib :: "ustring \<Rightarrow> ustring" where
  "escape_attrib s =
     replace 9 (ustr ''&#09;'') (replace 10 (ustr ''&#10;'') (replace 13 (ustr ''&#13;'')
       (replace 34 (ustr ''&quot;'') (replace 62 (ustr ''&gt;'') (replace 60 (ustr ''&lt;'')
         (replace 38 (ustr ''&amp;'') s))))))"

text \<open>
  The serialiser: an element whose text is absent or empty and that has no children is
  written in the short form.
\<close>

fun serialize :: "xml \<Rightarrow> ustring" where
  "serialize (XElement t ats txt chs) =
     ustr ''<'' @ ustr t
     @ concat (map (\<lambda>(k, v). ustr '' '' @ ustr k @ ustr ''='' @ [34] @ escape_attrib v @ [34]) ats)
     @ (if (txt \<noteq> None \<and> txt \<noteq> Some []) \<or> chs \<noteq> []
        then ustr ''>''
             @ (case txt of None \<Rightarrow> [] | Some s \<Rightarrow> escape_cdata s)
             @ concat (map serialize chs)
             @ ustr ''</'' @ ustr t @ ustr ''>''
        else ustr '' />'')"

subsection \<open>\<open>build_rss\<close> (lines 131 to 156)\<close>

definition START_URL :: string where
  "START_URL = ''https://www.csis.org/analysis''"

definition OUTPUT_FILE :: string where
  "OUTPUT_FILE = ''rss.xml''"

text \<open>\<open>ET.SubElement(parent, tag).text = s\<close> adds this child to the parent.\<close>

definition text_element :: "string \<Rightarrow> ustring \<Rightarrow> xml" where
  "text_element t s = XElement t [] (Some s) []"

definition CHANNEL_TITLE :: ustring where
  "CHANNEL_TITLE = ustr ''CSIS '' @ [8212] @ ustr '' Analysis (custom RSS)''"

text \<open>
  The time is read once for \<open>lastBuildDate\<close> and once more in every call of
  \<open>normalize_pubdate\<close> that falls back to it; \<open>clock k\<close> is the time at reading \<open>k\<close>,
  reading 0 for the channel and reading \<open>i + 1\<close> for the item at position \<open>i\<close>.
\<close>

definition item_element :: "datetime \<Rightarrow> item \<Rightarrow> xml" where
  "item_element now it =
     XElement ''item'' [] None
       [text_element ''title'' (ustr (title it)),
        text_element ''link'' (ustr (link it)),
        text_element ''guid'' (ustr (link it)),
        text_element ''description'' (ustr (if summary it \<noteq> [] then summary it else [])),
        text_element ''pubDate'' (ustr (normalize_pubdate now (pubdate_raw it)))]"

fun item_elements :: "(nat \<Rightarrow> datetime) \<Rightarrow> nat \<Rightarrow> item list \<Rightarrow> xml list" where
  "item_elements clock k [] = []"
| "item_elements clock k (it # items) =
     item_element (clock k) it # item_elements clock (Suc k) items"

definition rss_tree :: "(nat \<Rightarrow> datetime) \<Rightarrow> item list \<Rightarrow> xml" where
  "rss_tree clock items =
     XElement ''rss'' [(''version'', ustr ''2.0'')] None
       [XElement ''channel'' [] None
          ([text_element ''title'' CHANNEL_TITLE,
            text_element ''link'' (ustr START_URL),
            text_element ''description''
              (ustr ''Auto-generated RSS feed for CSIS Analysis pages.''),
            text_element ''lastBuildDate'' (ustr (strftime OUTPUT_FORMAT (clock 0))),
            text_element ''ttl'' (ustr ''60'')]
           @ item_elements clock 1 items)]"

definition XML_DECLARATION :: ustring where
  "XML_DECLARATION =
     ustr ''<?xml version='' @ [34] @ ustr ''1.0'' @ [34] @ ustr '' encoding='' @ [34]
     @ ustr ''utf-8'' @ [34] @ ustr ''?>'' @ [10]"

text \<open>
  The result of \<open>build_rss\<close>: what is written to the file and the line that is printed.
  The write itself is taken to succeed; the sink is not part of the program.
\<close>

record build_result =
  file_content :: ustring
  printed :: string

definition build_rss :: "(nat \<Rightarrow> datetime) \<Rightarrow> item list \<Rightarrow> build_result" where
  "build_rss clock items =
     \<lparr>file_content = XML_DECLARATION @ serialize (rss_tree clock items),
      printed = ''Wrote '' @ OUTPUT_FILE @ '' with '' @ show_nat (length items) @ '' items''\<rparr>"

section \<open>The driver (\<open>main\<close>, lines 158 to 168)\<close>

text \<open>
  What a run leaves behind: the lines printed, the exit status, and the file written, if
  any. The result of \<open>fetch_html\<close> is a parameter: the markup, or the exception that the
  request raised. \<open>parse_html\<close> stands for the \<open>BeautifulSoup\<close> constructor.
\<close>

record run =
  stdout :: "string list"
  exit_status :: nat
  written :: "ustring option"

definition main :: "(exn + string) \<Rightarrow> (string \<Rightarrow> located) \<Rightarrow> (string \<Rightarrow> string \<Rightarrow> exn + string)
    \<Rightarrow> (nat \<Rightarrow> datetime) \<Rightarrow> run" where
  "main fetched parse_html urljoin clock =
     (case fetched of
        Inl e \<Rightarrow> \<lparr>stdout = [''ERROR fetching: '' @ str_exn e], exit_status = 1, written = None\<rparr>
      | Inr html \<Rightarrow>
          (let items = parse_articles urljoin (parse_html html) in
           if items = [] then
             \<lparr>stdout = [''No items found. Exiting.''], exit_status = 1, written = None\<rparr>
           else
             (let r = build_rss clock items in
              \<lparr>stdout = [printed r], exit_status = 0, written = Some (file_content r)\<rparr>)))"

section \<open>Properties of the deduplication loop\<close>

lemma set_first_occurrences: "set (first_occurrences xs) \<subseteq> set xs"
  by (induction xs rule: first_occurrences.induct) auto

lemma subseq_first_occurrences: "subseq (first_occurrences xs) xs"
proof (induction xs rule: first_occurrences.induct)
  case 1
  show ?case by simp
next
  case (2 x xs)
  have "subseq (filter (\<lambda>y. link y \<noteq> link x) xs) xs"
    by simp
  with 2 have "subseq (first_occurrences (filter (\<lambda>y. link y \<noteq> link x) xs)) xs"
    using subseq_order.trans by blast
  then show ?case by simp
qed

lemma links_first_occurrences: "link ` set (first_occurrences xs) = link ` set xs"
proof (induction xs rule: first_occurrences.induct)
  case 1
  show ?case by simp
next
  case (2 x xs)
  then show ?case by auto
qed

lemma distinct_first_occurrences: "distinct (map link (first_occurrences xs))"
proof (induction xs rule: first_occurrences.induct)
  case 1
  show ?case by simp
next
  case (2 x xs)
  have "link x \<notin> link ` set (first_occurrences (filter (\<lambda>y. link y \<noteq> link x) xs))"
    unfolding links_first_occurrences by auto
  with 2 show ?case by simp
qed

lemma length_first_occurrences: "length (first_occurrences xs) = card (link ` set xs)"
proof -
  have "length (first_occurrences xs) = length (map link (first_occurrences xs))"
    by simp
  also have "\<dots> = card (set (map link (first_occurrences xs)))"
    using distinct_first_occurrences distinct_card by metis
  also have "\<dots> = card (link ` set xs)"
    by (simp add: links_first_occurrences)
  finally show ?thesis .
qed

lemma first_occurrences_append:
  "first_occurrences (xs @ ys) =
     first_occurrences xs @ first_occurrences (filter (\<lambda>y. link y \<notin> link ` set xs) ys)"
proof (induction xs arbitrary: ys rule: first_occurrences.induct)
  case 1
  show ?case by simp
next
  case (2 x xs)
  let ?P = "\<lambda>y. link y \<noteq> link x"
  have eq: "filter (\<lambda>y. link y \<notin> link ` set (filter ?P xs)) (filter ?P ys)
          = filter (\<lambda>y. link y \<notin> link ` set (x # xs)) ys"
    by (induction ys) auto
  have "first_occurrences ((x # xs) @ ys)
        = x # first_occurrences (filter ?P xs @ filter ?P ys)"
    by simp
  also have "\<dots> = x # (first_occurrences (filter ?P xs) @
      first_occurrences (filter (\<lambda>y. link y \<notin> link ` set (filter ?P xs)) (filter ?P ys)))"
    by (simp only: "2.IH")
  also have "\<dots> = x # (first_occurrences (filter ?P xs) @
      first_occurrences (filter (\<lambda>y. link y \<notin> link ` set (x # xs)) ys))"
    by (simp only: eq)
  finally show ?case by simp
qed

lemma dedup_loop_char:
  "length dedup < max_count \<Longrightarrow>
   dedup_loop max_count xs seen dedup =
     dedup @ take (max_count - length dedup)
               (first_occurrences (filter (\<lambda>y. link y \<notin> seen) xs))"
proof (induction xs arbitrary: seen dedup)
  case Nil
  show ?case by simp
next
  case (Cons it rest)
  show ?case
  proof (cases "link it \<in> seen")
    case True
    then show ?thesis using Cons by simp
  next
    case False
    have flt: "filter (\<lambda>y. link y \<noteq> link it) (filter (\<lambda>y. link y \<notin> seen) rest)
             = filter (\<lambda>y. link y \<notin> insert (link it) seen) rest"
      by (induction rest) auto
    show ?thesis
    proof (cases "Suc (length dedup) \<ge> max_count")
      case True
      with Cons.prems have "max_count - length dedup = Suc 0" by simp
      with True False show ?thesis by (simp add: Let_def)
    next
      case False
      then have lt: "length (dedup @ [it]) < max_count" by simp
      have step: "max_count - length dedup = Suc (max_count - length (dedup @ [it]))"
        using False by simp
      have "dedup_loop max_count (it # rest) seen dedup
          = dedup_loop max_count rest (insert (link it) seen) (dedup @ [it])"
        using \<open>link it \<notin> seen\<close> False by (simp add: Let_def)
      also have "\<dots> = (dedup @ [it]) @ take (max_count - length (dedup @ [it]))
          (first_occurrences (filter (\<lambda>y. link y \<notin> insert (link it) seen) rest))"
        by (rule Cons.IH [OF lt])
      also have "\<dots> = dedup @ take (max_count - length dedup)
          (it # first_occurrences (filter (\<lambda>y. link y \<noteq> link it)
             (filter (\<lambda>y. link y \<notin> seen) rest)))"
        by (simp only: flt step take_Suc_Cons append_assoc append_Cons append_Nil)
      also have "\<dots> = dedup @ take (max_count - length dedup)
          (first_occurrences (filter (\<lambda>y. link y \<notin> seen) (it # rest)))"
        using \<open>link it \<notin> seen\<close> by simp
      finally show ?thesis .
    qed
  qed
qed

lemma dedupe_and_limit_char:
  "0 < max_count \<Longrightarrow> dedupe_and_limit max_count xs = take max_count (first_occurrences xs)"
  by (simp add: dedupe_and_limit_def dedup_loop_char)

lemma dedup_loop_bound:
  "length dedup < max max_count 1 \<Longrightarrow>
   length (dedup_loop max_count xs seen dedup) \<le> max max_count 1"
  by (induction xs arbitrary: seen dedup) (auto simp: Let_def)

text \<open>
  Claim C1. For every list of records and every positive limit, the deduplication loop
  returns an order-preserving subsequence of its input in which no two records have the same
  link; the number of records returned is the minimum of the number of different links and
  the limit; the records returned are the first occurrences of their links, cut at the limit;
  and once the limit has been reached within a prefix of the input, whatever follows that
  prefix has no influence on the result.
\<close>

theorem dedupe_and_limit_spec:
  assumes "0 < max_count"
  shows "subseq (dedupe_and_limit max_count xs) xs
    \<and> distinct (map link (dedupe_and_limit max_count xs))
    \<and> length (dedupe_and_limit max_count xs) = min (card (link ` set xs)) max_count
    \<and> dedupe_and_limit max_count xs = take max_count (first_occurrences xs)
    \<and> (length (dedupe_and_limit max_count xs) = max_count \<longrightarrow>
         dedupe_and_limit max_count (xs @ ys) = dedupe_and_limit max_count xs)"
proof -
  let ?r = "dedupe_and_limit max_count xs"
  have ch: "?r = take max_count (first_occurrences xs)"
    using assms by (rule dedupe_and_limit_char)
  have "subseq (take max_count (first_occurrences xs)) (first_occurrences xs)"
    by (metis append_take_drop_id subseq_rev_drop_many subseq_order.order_refl)
  then have s: "subseq ?r xs"
    unfolding ch using subseq_first_occurrences subseq_order.trans by blast
  have d: "distinct (map link ?r)"
    unfolding ch take_map[symmetric] using distinct_first_occurrences by (rule distinct_take)
  have l: "length ?r = min (card (link ` set xs)) max_count"
    unfolding ch by (simp add: length_first_occurrences)
  have sc: "dedupe_and_limit max_count (xs @ ys) = ?r" if "length ?r = max_count"
  proof -
    from that have "max_count \<le> length (first_occurrences xs)"
      unfolding ch by simp
    then show ?thesis
      using assms by (simp add: dedupe_and_limit_char first_occurrences_append)
  qed
  from s d l ch sc show ?thesis by blast
qed

theorem dedupe_and_limit_spec_witness:
  "(0::nat) < 2
   \<and> dedupe_and_limit 2
        [\<lparr>title = ''A'', link = ''/a'', summary = '''', pubdate_raw = None\<rparr>,
         \<lparr>title = ''A again'', link = ''/a'', summary = ''x'', pubdate_raw = None\<rparr>,
         \<lparr>title = ''B'', link = ''/b'', summary = '''', pubdate_raw = Some ''2024-03-05''\<rparr>]
       = [\<lparr>title = ''A'', link = ''/a'', summary = '''', pubdate_raw = None\<rparr>,
          \<lparr>title = ''B'', link = ''/b'', summary = '''', pubdate_raw = Some ''2024-03-05''\<rparr>]
   \<and> dedupe_and_limit 2
        ([\<lparr>title = ''A'', link = ''/a'', summary = '''', pubdate_raw = None\<rparr>,
          \<lparr>title = ''A again'', link = ''/a'', summary = ''x'', pubdate_raw = None\<rparr>,
          \<lparr>title = ''B'', link = ''/b'', summary = '''', pubdate_raw = Some ''2024-03-05''\<rparr>]
         @ [\<lparr>title = ''C'', link = ''/c'', summary = '''', pubdate_raw = None\<rparr>])
       = [\<lparr>title = ''A'', link = ''/a'', summary = '''', pubdate_raw = None\<rparr>,
          \<lparr>title = ''B'', link = ''/b'', summary = '''', pubdate_raw = Some ''2024-03-05''\<rparr>]"
  using dedupe_and_limit_spec [of 2
      "[\<lparr>title = ''A'', link = ''/a'', summary = '''', pubdate_raw = None\<rparr>,
        \<lparr>title = ''A again'', link = ''/a'', summary = ''x'', pubdate_raw = None\<rparr>,
        \<lparr>title = ''B'', link = ''/b'', summary = '''', pubdate_raw = Some ''2024-03-05''\<rparr>]"
      "[\<lparr>title = ''C'', link = ''/c'', summary = '''', pubdate_raw = None\<rparr>]"]
  by (simp add: dedupe_and_limit_def Let_def)

text \<open>
  Claim C9. With the limit 0 the loop still keeps the first record of a non-empty input:
  the length test comes after the append. The result then has length 1, which exceeds the
  limit, and for every limit the length of the result is at most the larger of the limit
  and 1.
\<close>

theorem dedupe_and_limit_zero:
  assumes "results \<noteq> []"
  shows "dedupe_and_limit 0 results = [hd results]
    \<and> length (dedupe_and_limit 0 results) = 1
    \<and> \<not> length (dedupe_and_limit 0 results) \<le> 0
    \<and> length (dedupe_and_limit max_count results) \<le> max max_count 1"
proof -
  from assms obtain it rest where r: "results = it # rest"
    by (cases results) auto
  have z: "dedupe_and_limit 0 results = [hd results]"
    by (simp add: r dedupe_and_limit_def Let_def)
  have b: "length (dedupe_and_limit max_count results) \<le> max max_count 1"
    unfolding dedupe_and_limit_def by (rule dedup_loop_bound) simp
  from z b show ?thesis by simp
qed

theorem dedupe_and_limit_zero_witness:
  "[\<lparr>title = ''A'', link = ''/a'', summary = '''', pubdate_raw = None\<rparr>,
    \<lparr>title = ''B'', link = ''/b'', summary = '''', pubdate_raw = None\<rparr>] \<noteq> []
   \<and> dedupe_and_limit 0
        [\<lparr>title = ''A'', link = ''/a'', summary = '''', pubdate_raw = None\<rparr>,
         \<lparr>title = ''B'', link = ''/b'', summary = '''', pubdate_raw = None\<rparr>]
       = [\<lparr>title = ''A'', link = ''/a'', summary = '''', pubdate_raw = None\<rparr>]"
  using dedupe_and_limit_zero [of
      "[\<lparr>title = ''A'', link = ''/a'', summary = '''', pubdate_raw = None\<rparr>,
        \<lparr>title = ''B'', link = ''/b'', summary = '''', pubdate_raw = None\<rparr>]" 0]
  by simp

section \<open>Properties of the article selection\<close>

lemmas eval_defs = select_def select_one_def find_all_def find_def matches_def S1_def S2_def
  choose_anchor_def extract_title_def extract_summary_def extract_pubdate_def extract_record_def
  get_text_strip_def strip_def isspace_def BASE_URL_def urljoin_stub_def

text \<open>
  Claim C2. The selection returns exactly the matches of the first of the three strategies
  that has at least one match, in the order \<open>article.article-search-listing\<close>,
  \<open>.views-row article\<close>, any \<open>article\<close> element; the result is the list of one strategy,
  never a combination. When the first strategy matches, the other two are not used; when
  none matches, the result is empty.
\<close>

theorem select_articles_first_strategy:
  "select_articles soup =
     (if select S1 soup \<noteq> [] then select S1 soup
      else if select S2 soup \<noteq> [] then select S2 soup
      else find_all ''article'' soup)
   \<and> (select S1 soup \<noteq> [] \<longrightarrow> select_articles soup = select S1 soup)
   \<and> (select S1 soup = [] \<and> select S2 soup = [] \<and> find_all ''article'' soup = []
        \<longrightarrow> select_articles soup = [])"
  by (simp add: select_articles_def Let_def)

theorem select_articles_first_strategy_witness:
  "select S1 page_listing \<noteq> []
   \<and> length (select_articles page_listing) = 1
   \<and> length (select S2 page_listing) = 2
   \<and> select S1 page_empty = [] \<and> select S2 page_empty = []
   \<and> find_all ''article'' page_empty = []
   \<and> select_articles page_empty = []"
  using select_articles_first_strategy [of page_listing] select_articles_first_strategy [of page_empty]
  by (simp add: page_listing_def page_empty_def eval_defs)

section \<open>Properties of the field extraction\<close>

lemma matches_h3_a: "matches [[Tag ''h3'', Tag ''a'']] l \<Longrightarrow> matches [[Tag ''a'']] l"
  by (cases l) (simp add: matches_def)

lemma select_h3_a_empty:
  assumes "select_one [[Tag ''a'']] a = None"
  shows "select_one [[Tag ''h3'', Tag ''a'']] a = None"
proof -
  from assms have "select [[Tag ''a'']] a = []"
    by (simp add: select_one_def split: list.splits)
  then have "\<forall>l\<in>set (descendants a). \<not> matches [[Tag ''a'']] l"
    by (simp add: select_def filter_empty_conv)
  then have "\<forall>l\<in>set (descendants a). \<not> matches [[Tag ''h3'', Tag ''a'']] l"
    using matches_h3_a by blast
  then have "select [[Tag ''h3'', Tag ''a'']] a = []"
    by (simp add: select_def filter_empty_conv)
  then show ?thesis by (simp add: select_one_def)
qed

lemma no_anchor_skip:
  "select_one [[Tag ''a'']] a = None \<Longrightarrow> extract_record urljoin a = Inr None"
  by (simp add: extract_record_def choose_anchor_def select_h3_a_empty)

lemma no_href_skip:
  "choose_anchor a = Some a_tag \<Longrightarrow> get_attr (snd a_tag) ''href'' = None \<Longrightarrow>
   extract_record urljoin a = Inr None"
  by (simp add: extract_record_def)

lemma extract_loop_map_filter:
  "extract_loop urljoin articles results = results @ List.map_filter (emitted urljoin) articles"
proof (induction articles arbitrary: results)
  case Nil
  show ?case by simp
next
  case (Cons a articles)
  show ?case
    by (simp add: Cons.IH emitted_def split: sum.splits option.splits)
qed

lemma extract_record_Some:
  assumes "extract_record urljoin a = Inr (Some r)"
  shows "\<exists>a_tag href. choose_anchor a = Some a_tag
           \<and> get_attr (snd a_tag) ''href'' = Some href \<and> href \<noteq> []
           \<and> urljoin BASE_URL href = Inr (link r)
           \<and> title r = extract_title a_tag
           \<and> summary r = extract_summary a
           \<and> pubdate_raw r = extract_pubdate a"
  using assms
  by (auto simp: extract_record_def Let_def split: option.splits if_splits sum.splits)

lemma extract_loop_members:
  assumes "r \<in> set (extract_loop urljoin articles [])"
  shows "\<exists>a\<in>set articles. extract_record urljoin a = Inr (Some r)"
proof -
  from assms obtain a where "a \<in> set articles" and "emitted urljoin a = Some r"
    by (auto simp: extract_loop_map_filter List.map_filter_def)
  then show ?thesis
    by (auto simp: emitted_def split: sum.splits option.splits)
qed

lemma skip_examples:
  "extract_loop urljoin_stub [cand_no_anchor, cand_no_href, cand_bad_href, cand_titled] []
   = [\<lparr>title = ''Title A'', link = ''https://www.csis.org/a'', summary = [], pubdate_raw = None\<rparr>]"
  by (simp add: cand_no_anchor_def cand_no_href_def cand_bad_href_def cand_titled_def eval_defs)

text \<open>
  Claim C5. A candidate without any anchor element, or whose chosen anchor has no \<open>href\<close>
  attribute, yields no record: the body of the loop ends in \<open>continue\<close> and raises
  nothing, the loop goes on with the remaining candidates as if the candidate were not
  there, and every record in the output comes from a candidate whose chosen anchor has a
  non-empty \<open>href\<close>, with the link resolved from it and the title taken from that anchor.
\<close>

theorem extract_skips_missing_href:
  assumes "select_one [[Tag ''a'']] a = None
     \<or> (\<exists>a_tag. choose_anchor a = Some a_tag \<and> get_attr (snd a_tag) ''href'' = None)"
  shows "extract_record urljoin a = Inr None
    \<and> extract_loop urljoin (before @ a # after) results
        = extract_loop urljoin (before @ after) results
    \<and> (\<forall>r\<in>set (extract_loop urljoin (before @ a # after) []).
          \<exists>c\<in>set (before @ after). \<exists>a_tag href.
             choose_anchor c = Some a_tag
           \<and> get_attr (snd a_tag) ''href'' = Some href \<and> href \<noteq> []
           \<and> urljoin BASE_URL href = Inr (link r)
           \<and> title r = extract_title a_tag)"
proof -
  from assms have skip: "extract_record urljoin a = Inr None"
    using no_anchor_skip no_href_skip by blast
  then have em: "emitted urljoin a = None"
    by (simp add: emitted_def)
  have cont: "extract_loop urljoin (before @ a # after) res
        = extract_loop urljoin (before @ after) res" for res
    by (simp add: extract_loop_map_filter List.map_filter_def em)
  have "\<exists>c\<in>set (before @ after). \<exists>a_tag href.
             choose_anchor c = Some a_tag
           \<and> get_attr (snd a_tag) ''href'' = Some href \<and> href \<noteq> []
           \<and> urljoin BASE_URL href = Inr (link r)
           \<and> title r = extract_title a_tag"
    if "r \<in> set (extract_loop urljoin (before @ a # after) [])" for r
  proof -
    from that have "r \<in> set (extract_loop urljoin (before @ after) [])"
      by (simp only: cont)
    then obtain c where c: "c \<in> set (before @ after)" "extract_record urljoin c = Inr (Some r)"
      using extract_loop_members by blast
    from extract_record_Some [OF c(2)] c(1) show ?thesis by blast
  qed
  with skip cont show ?thesis by blast
qed

theorem extract_skips_missing_href_witness:
  "select_one [[Tag ''a'']] cand_no_anchor = None
   \<and> extract_record urljoin_stub cand_no_anchor = Inr None
   \<and> extract_loop urljoin_stub ([cand_titled] @ cand_no_anchor # [cand_titled]) []
      = extract_loop urljoin_stub ([cand_titled] @ [cand_titled]) []"
proof -
  have h: "select_one [[Tag ''a'']] cand_no_anchor = None"
    by (simp add: cand_no_anchor_def eval_defs)
  then have "select_one [[Tag ''a'']] cand_no_anchor = None
     \<or> (\<exists>a_tag. choose_anchor cand_no_anchor = Some a_tag \<and> get_attr (snd a_tag) ''href'' = None)"
    by simp
  from extract_skips_missing_href [OF this, of urljoin_stub "[cand_titled]" "[cand_titled]" "[]"] h
  show ?thesis by blast
qed

text \<open>
  Claim C7 says that every record emitted has a non-empty title. The source never tests
  the title: an article whose link holds only an image is emitted with the empty title.
\<close>

theorem extract_empty_title_counterexample:
  "extract_loop urljoin_stub (select_articles page_image_link) []
   = [\<lparr>title = [], link = ''https://www.csis.org/b'', summary = [], pubdate_raw = None\<rparr>]"
  by (simp add: page_image_link_def select_articles_def eval_defs)

lemma join_empty_sep: "join [] xs = concat xs"
  by (induction "[] :: string" xs rule: join.induct) simp_all

lemma get_text_strip_empty:
  "get_text_strip [] n = [] \<longleftrightarrow> (\<forall>s\<in>set (strings n). strip s = [])"
  by (auto simp: get_text_strip_def join_empty_sep)

lemma extract_loop_concat:
  "extract_loop urljoin articles results =
     results @ concat (map (\<lambda>a. case extract_record urljoin a of
                                  Inr (Some r) \<Rightarrow> [r] | Inr None \<Rightarrow> [] | Inl e \<Rightarrow> []) articles)"
proof (induction articles arbitrary: results)
  case Nil
  show ?case by simp
next
  case (Cons a articles)
  show ?case
    by (simp add: Cons.IH split: sum.splits option.splits)
qed

lemma extract_record_iff:
  "extract_record urljoin a = Inr (Some r) \<longleftrightarrow>
     (\<exists>a_tag href lnk. choose_anchor a = Some a_tag
        \<and> get_attr (snd a_tag) ''href'' = Some href \<and> href \<noteq> []
        \<and> urljoin BASE_URL href = Inr lnk
        \<and> r = \<lparr>title = (case select_one [[Tag ''span'']] a_tag of
                            Some title_span \<Rightarrow> get_text_strip [] (snd title_span)
                          | None \<Rightarrow> get_text_strip [] (snd a_tag)),
                 link = lnk, summary = extract_summary a,
                 pubdate_raw = extract_pubdate a\<rparr>)"
  by (auto simp: extract_record_def extract_title_def Let_def
           split: option.splits if_splits sum.splits)

text \<open>
  Claim C7, amended. The records emitted are, in order, the records of the single
  candidates. A candidate yields a record exactly when its chosen anchor has a non-empty
  \<open>href\<close> that \<open>urljoin\<close> resolves; the title plays no part in that decision. The
  title of the record is the stripped text of the first \<open>span\<close> inside the chosen anchor
  of that same candidate, or of the anchor itself when it holds no \<open>span\<close>, and such a
  text is empty exactly when every string below the element consists of white space.
\<close>

theorem extract_title_source:
  "extract_loop urljoin articles results =
     results @ concat (map (\<lambda>a. case extract_record urljoin a of
                                  Inr (Some r) \<Rightarrow> [r] | Inr None \<Rightarrow> [] | Inl e \<Rightarrow> []) articles)
   \<and> (extract_record urljoin a = Inr (Some r) \<longleftrightarrow>
        (\<exists>a_tag href lnk. choose_anchor a = Some a_tag
           \<and> get_attr (snd a_tag) ''href'' = Some href \<and> href \<noteq> []
           \<and> urljoin BASE_URL href = Inr lnk
           \<and> r = \<lparr>title = (case select_one [[Tag ''span'']] a_tag of
                               Some title_span \<Rightarrow> get_text_strip [] (snd title_span)
                             | None \<Rightarrow> get_text_strip [] (snd a_tag)),
                    link = lnk, summary = extract_summary a,
                    pubdate_raw = extract_pubdate a\<rparr>))
   \<and> (get_text_strip [] n = [] \<longleftrightarrow> (\<forall>s\<in>set (strings n). strip s = []))"
  using extract_loop_concat [of urljoin articles results] extract_record_iff [of urljoin a r]
    get_text_strip_empty [of n]
  by (intro conjI)


theorem extract_title_source_witness:
  "extract_record urljoin_stub cand_image_link = Inr (Some item_untitled)
   \<and> extract_loop urljoin_stub [cand_image_link, cand_no_href, cand_titled] []
       = [item_untitled, item_titled]
   \<and> (\<exists>a_tag href lnk. choose_anchor cand_image_link = Some a_tag
           \<and> get_attr (snd a_tag) ''href'' = Some href \<and> href \<noteq> []
           \<and> urljoin_stub BASE_URL href = Inr lnk
           \<and> item_untitled = \<lparr>title = (case select_one [[Tag ''span'']] a_tag of
                               Some title_span \<Rightarrow> get_text_strip [] (snd title_span)
                             | None \<Rightarrow> get_text_strip [] (snd a_tag)),
                    link = lnk, summary = extract_summary cand_image_link,
                    pubdate_raw = extract_pubdate cand_image_link\<rparr>)
   \<and> get_text_strip [] (Element ''a'' [] [] [Text '' '', Element ''b'' [] [] [Text []]]) = []"
proof -
  have e1: "extract_record urljoin_stub cand_image_link = Inr (Some item_untitled)"
    by (simp add: cand_image_link_def item_untitled_def eval_defs)
  have e2: "extract_record urljoin_stub cand_no_href = Inr None"
    by (simp add: cand_no_href_def eval_defs)
  have e3: "extract_record urljoin_stub cand_titled = Inr (Some item_titled)"
    by (simp add: cand_titled_def item_titled_def eval_defs)
  have ws: "\<forall>s\<in>set (strings (Element ''a'' [] [] [Text '' '', Element ''b'' [] [] [Text []]])).
         strip s = []"
    by (simp add: strip_def isspace_def)
  from extract_title_source [of urljoin_stub "[cand_image_link, cand_no_href, cand_titled]" "[]"
        cand_image_link item_untitled "Element ''a'' [] [] [Text '' '', Element ''b'' [] [] [Text []]]"]
    e1 e2 e3 ws
  show ?thesis by simp
qed

section \<open>Properties of the date normalisation\<close>

lemmas date_defs = compile_format.simps isspace_def match_item_def alternatives_def digits_def nonzero_def
  List.map_filter_def ascii_lower_def ascii_upper_def upper_letters_def lower_letters_def
  convert_group_def int_group_def py_int_def strip_def is_digit_def build_datetime_def
  parsed_defaults_def days_in_month_def is_leap_def OUTPUT_FORMAT_def format_directive_def
  weekday_def toordinal_def days_before_year_def days_before_month_def weekday_names_def
  month_abbrs_def pad2_def pad6_def digit_char_def format_utcoffset_def utc_def
  upt_rec [of _ "numeral _"] strptime_def ISO_FORMATS_def HUMAN_FORMATS_def
  offset_alternatives_def any_case_def month_abbrs_lower_def month_names_lower_def
  convert_offset_def slice_def month_index_def

lemma replicate_numeral: "replicate (numeral k) x = x # replicate (pred_numeral k) x"
  by (simp add: numeral_eq_Suc)

lemma match_item_keys:
  assumes "(g, r) \<in> set (match_item it s)"
  shows "map fst g = directive_keys [it]"
  using assms
  by (cases it) (auto simp: match_item_def List.map_filter_def split: option.splits)

lemma match_items_keys:
  "(g, r) \<in> set (match_items its s) \<Longrightarrow> map fst g = directive_keys its"
proof (induction its arbitrary: g r s)
  case Nil
  then show ?case by simp
next
  case (Cons it its)
  from Cons.prems obtain g1 r1 g2 where
    m1: "(g1, r1) \<in> set (match_item it s)" and
    m2: "(g2, r) \<in> set (match_items its r1)" and
    g: "g = g1 @ g2"
    by auto
  have "map fst g1 = directive_keys [it]"
    using m1 by (rule match_item_keys)
  moreover have "map fst g2 = directive_keys its"
    using m2 by (rule Cons.IH)
  ultimately show ?case
    unfolding g by (cases it) simp_all
qed

lemma convert_group_gmtoff:
  assumes "convert_group g p = Inr p'"
  shows "(p_gmtoff p' \<noteq> None) = (p_gmtoff p \<noteq> None \<or> fst g = CHR ''z'')"
  using assms
  by (auto simp: convert_group_def Let_def map_sum_def split: if_splits sum.splits prod.splits)

lemma convert_groups_gmtoff:
  "convert_groups gs p = Inr p' \<Longrightarrow>
   (p_gmtoff p' \<noteq> None) = (p_gmtoff p \<noteq> None \<or> CHR ''z'' \<in> set (map fst gs))"
proof (induction gs arbitrary: p)
  case Nil
  then show ?case by simp
next
  case (Cons g gs)
  from Cons.prems obtain q where q: "convert_group g p = Inr q" "convert_groups gs q = Inr p'"
    by (auto split: sum.splits)
  from Cons.IH [OF q(2)] convert_group_gmtoff [OF q(1)] show ?case
    by auto
qed

lemma build_datetime_tzinfo:
  assumes "build_datetime p = Inr dt"
  shows "(tzinfo dt \<noteq> None) = (p_gmtoff p \<noteq> None)"
  using assms
  by (auto simp: build_datetime_def Let_def split: if_splits option.splits)

lemma strptime_tzinfo:
  assumes "strptime s fmt = Inr dt"
  shows "(tzinfo dt \<noteq> None) = (CHR ''z'' \<in> set (directive_keys (compile_format fmt)))"
proof -
  from assms obtain found rest ms p where
    m: "match_items (compile_format fmt) s = (found, rest) # ms" and
    c: "convert_groups found parsed_defaults = Inr p" and
    b: "build_datetime p = Inr dt"
    by (auto simp: strptime_def split: list.splits if_splits sum.splits)
  from m have "(found, rest) \<in> set (match_items (compile_format fmt) s)"
    by simp
  then have k: "map fst found = directive_keys (compile_format fmt)"
    by (rule match_items_keys)
  have "p_gmtoff parsed_defaults = None"
    by (simp add: parsed_defaults_def)
  with convert_groups_gmtoff [OF c] k build_datetime_tzinfo [OF b]
  show ?thesis by simp
qed

lemma strftime_output:
  "strftime OUTPUT_FORMAT dt =
     weekday_names ! weekday dt @ '', '' @ pad2 (day dt) @ '' '' @ month_abbrs ! (month dt - 1)
     @ '' '' @ show_nat (year dt) @ '' '' @ pad2 (hour dt) @ '':'' @ pad2 (minute dt) @ '':''
     @ pad2 (second dt) @ '' '' @ format_utcoffset (tzinfo dt)"
  by (simp add: OUTPUT_FORMAT_def format_directive_def)

lemma compile_iso0: "directive_keys (compile_format ''%Y-%m-%dT%H:%M:%S%z'') = ''YmdHMSz''"
  by (simp add: isspace_def compile_format.simps)
lemma compile_iso1: "directive_keys (compile_format ''%Y-%m-%dT%H:%M:%S.%f%z'') = ''YmdHMSfz''"
  by (simp add: isspace_def compile_format.simps)
lemma compile_iso2: "directive_keys (compile_format ''%Y-%m-%dT%H:%M:%S'') = ''YmdHMS''"
  by (simp add: isspace_def compile_format.simps)
lemma compile_iso3: "directive_keys (compile_format ''%Y-%m-%d'') = ''Ymd''"
  by (simp add: isspace_def compile_format.simps)

lemma iso_date_only: "iso_loop ISO_FORMATS (strip ''2024-03-05'') = Some date_2024_03_05"
  by (simp add: date_defs date_2024_03_05_def)

lemma iso_month_name: "iso_loop ISO_FORMATS (strip ''March 5, 2024'') = None"
  by (simp add: date_defs)

lemma human_month_name: "human_loop HUMAN_FORMATS (strip ''March 5, 2024'') = Some date_2024_03_05"
  by (simp add: date_defs date_2024_03_05_def)

lemma strftime_2024_03_05: "strftime OUTPUT_FORMAT date_2024_03_05 = ''Tue, 05 Mar 2024 00:00:00 +0000''"
  by (simp add: date_defs date_2024_03_05_def)

lemma strptime_date_only:
  "strptime ''2024-03-05'' ''%Y-%m-%d'' = Inr (date_2024_03_05\<lparr>tzinfo := None\<rparr>)"
  by (simp add: date_defs date_2024_03_05_def)

lemma strip_plus_0500: "strip ''2024-03-05T10:00:00+0500'' = ''2024-03-05T10:00:00+0500''"
  by (simp add: strip_def isspace_def)

lemma strptime_plus_0500:
  "strptime ''2024-03-05T10:00:00+0500'' ''%Y-%m-%dT%H:%M:%S%z'' = Inr date_plus_0500"
  by (simp add: date_defs replicate_numeral date_plus_0500_def)

lemma strftime_plus_0500:
  "strftime OUTPUT_FORMAT date_plus_0500 = ''Tue, 05 Mar 2024 10:00:00 +0500''"
  by (simp add: date_defs date_plus_0500_def)

lemma strip_plus_053015: "strip ''2024-03-05T10:00:00+05:30:15'' = ''2024-03-05T10:00:00+05:30:15''"
  by (simp add: strip_def isspace_def)

lemma strptime_plus_053015:
  "strptime ''2024-03-05T10:00:00+05:30:15'' ''%Y-%m-%dT%H:%M:%S%z'' = Inr date_plus_053015"
  by (simp add: date_defs replicate_numeral date_plus_053015_def)

lemma strftime_plus_053015:
  "strftime OUTPUT_FORMAT date_plus_053015 = ''Tue, 05 Mar 2024 10:00:00 +053015''"
  by (simp add: date_defs date_plus_053015_def)

lemma normalize_pubdate_absent:
  "normalize_pubdate now None = strftime OUTPUT_FORMAT now
   \<and> normalize_pubdate now (Some []) = strftime OUTPUT_FORMAT now"
  by (simp add: normalize_pubdate_def)

lemma normalize_pubdate_unmatched:
  assumes "iso_loop ISO_FORMATS (strip raw) = None"
    and "human_loop HUMAN_FORMATS (strip raw) = None"
  shows "normalize_pubdate now (Some raw) = strftime OUTPUT_FORMAT now"
  using assms by (simp add: normalize_pubdate_def normalize_try_def)

text \<open>
  Claim C3. For the text \<open>2024-03-05\<close> the result is the canonical text of midnight,
  5 March 2024, UTC: the date-only pattern matches and the naive value is given the UTC
  zone. For \<open>March 5, 2024\<close> none of the four ISO patterns matches, the month-name
  pattern does, and the result is the same instant and the same text.
\<close>

theorem normalize_pubdate_examples:
  "normalize_pubdate now (Some ''2024-03-05'') = ''Tue, 05 Mar 2024 00:00:00 +0000''
   \<and> normalize_pubdate now (Some ''March 5, 2024'') = ''Tue, 05 Mar 2024 00:00:00 +0000''
   \<and> iso_loop ISO_FORMATS (strip ''2024-03-05'') = Some date_2024_03_05
   \<and> iso_loop ISO_FORMATS (strip ''March 5, 2024'') = None
   \<and> human_loop HUMAN_FORMATS (strip ''March 5, 2024'') = Some date_2024_03_05"
  by (simp add: normalize_pubdate_def normalize_try_def iso_date_only iso_month_name
      human_month_name strftime_2024_03_05)

text \<open>
  Claim C4. The function returns a text for every input and falls back to the current
  time when the input is absent, empty or unmatched (the two lemmas above). The docstring
  promises RFC-2822 dates, whose zone is a sign and four digits; but the offset pattern
  accepts seconds, and the output directive then prints six digits. On the text
  \<open>2024-03-05T10:00:00+05:30:15\<close> the result ends in \<open>+053015\<close>.
\<close>

theorem normalize_pubdate_offset_seconds:
  "normalize_pubdate now (Some ''2024-03-05T10:00:00+05:30:15'')
     = ''Tue, 05 Mar 2024 10:00:00 +053015''"
proof -
  have "tzinfo date_plus_053015 = Some 19815000000"
    by (simp add: date_plus_053015_def)
  then show ?thesis
    by (simp add: normalize_pubdate_def normalize_try_def ISO_FORMATS_def strip_plus_053015
        strptime_plus_053015 strftime_plus_053015)
qed

text \<open>
  Claim C10. When the stripped text parses under one of the two patterns with an offset
  directive, the parsed value carries an offset, the result is that value printed as it
  was parsed (weekday, day, month, year and clock time of the source, not shifted), and
  the zone printed is the parsed offset. A value parsed under one of the two ISO patterns
  without offset directive is naive, and only a naive value is given the UTC zone by the
  first loop; the second loop gives it to every value.
\<close>

theorem normalize_pubdate_keeps_offset:
  assumes "raw \<noteq> []"
    and "strptime (strip raw) ''%Y-%m-%dT%H:%M:%S%z'' = Inr dt
       \<or> (strptime (strip raw) ''%Y-%m-%dT%H:%M:%S%z'' = Inl e
          \<and> strptime (strip raw) ''%Y-%m-%dT%H:%M:%S.%f%z'' = Inr dt)"
  shows "(\<exists>off. tzinfo dt = Some off
     \<and> normalize_pubdate now (Some raw) = strftime OUTPUT_FORMAT dt
     \<and> strftime OUTPUT_FORMAT dt =
         weekday_names ! weekday dt @ '', '' @ pad2 (day dt) @ '' ''
         @ month_abbrs ! (month dt - 1) @ '' '' @ show_nat (year dt) @ '' ''
         @ pad2 (hour dt) @ '':'' @ pad2 (minute dt) @ '':'' @ pad2 (second dt)
         @ '' '' @ format_utcoffset (Some off))
    \<and> (strptime s ''%Y-%m-%dT%H:%M:%S'' = Inr dt' \<or> strptime s ''%Y-%m-%d'' = Inr dt'
         \<longrightarrow> tzinfo dt' = None
           \<and> iso_loop [''%Y-%m-%dT%H:%M:%S'', ''%Y-%m-%d''] s \<noteq> None
           \<and> (\<forall>d. iso_loop [''%Y-%m-%dT%H:%M:%S'', ''%Y-%m-%d''] s = Some d
                  \<longrightarrow> tzinfo d = utc))
    \<and> (human_loop HUMAN_FORMATS s = Some dt' \<longrightarrow> tzinfo dt' = utc)"
proof -
  have z0: "CHR ''z'' \<in> set (directive_keys (compile_format ''%Y-%m-%dT%H:%M:%S%z''))"
    by (simp only: compile_iso0) simp
  have z1: "CHR ''z'' \<in> set (directive_keys (compile_format ''%Y-%m-%dT%H:%M:%S.%f%z''))"
    by (simp only: compile_iso1) simp
  from assms(2) have "tzinfo dt \<noteq> None"
  proof
    assume "strptime (strip raw) ''%Y-%m-%dT%H:%M:%S%z'' = Inr dt"
    from strptime_tzinfo [OF this] z0 show ?thesis by blast
  next
    assume "strptime (strip raw) ''%Y-%m-%dT%H:%M:%S%z'' = Inl e
          \<and> strptime (strip raw) ''%Y-%m-%dT%H:%M:%S.%f%z'' = Inr dt"
    then have "strptime (strip raw) ''%Y-%m-%dT%H:%M:%S.%f%z'' = Inr dt" ..
    from strptime_tzinfo [OF this] z1 show ?thesis by blast
  qed
  then obtain off where off: "tzinfo dt = Some off" by auto
  have "iso_loop ISO_FORMATS (strip raw) = Some dt"
    using assms(2) off by (auto simp: ISO_FORMATS_def)
  then have n: "normalize_pubdate now (Some raw) = strftime OUTPUT_FORMAT dt"
    using assms(1) by (simp add: normalize_pubdate_def normalize_try_def)
  from off n strftime_output [of dt]
  have part1: "\<exists>off. tzinfo dt = Some off
     \<and> normalize_pubdate now (Some raw) = strftime OUTPUT_FORMAT dt
     \<and> strftime OUTPUT_FORMAT dt =
         weekday_names ! weekday dt @ '', '' @ pad2 (day dt) @ '' ''
         @ month_abbrs ! (month dt - 1) @ '' '' @ show_nat (year dt) @ '' ''
         @ pad2 (hour dt) @ '':'' @ pad2 (minute dt) @ '':'' @ pad2 (second dt)
         @ '' '' @ format_utcoffset (Some off)"
    by simp
  have n2: "CHR ''z'' \<notin> set (directive_keys (compile_format ''%Y-%m-%dT%H:%M:%S''))"
    by (simp only: compile_iso2) simp
  have n3: "CHR ''z'' \<notin> set (directive_keys (compile_format ''%Y-%m-%d''))"
    by (simp only: compile_iso3) simp
  have naive2: "tzinfo x = None" if "strptime s ''%Y-%m-%dT%H:%M:%S'' = Inr x" for x
    using strptime_tzinfo [OF that] n2 by blast
  have naive3: "tzinfo x = None" if "strptime s ''%Y-%m-%d'' = Inr x" for x
    using strptime_tzinfo [OF that] n3 by blast
  have part2: "tzinfo dt' = None
           \<and> iso_loop [''%Y-%m-%dT%H:%M:%S'', ''%Y-%m-%d''] s \<noteq> None
           \<and> (\<forall>d. iso_loop [''%Y-%m-%dT%H:%M:%S'', ''%Y-%m-%d''] s = Some d
                  \<longrightarrow> tzinfo d = utc)"
    if "strptime s ''%Y-%m-%dT%H:%M:%S'' = Inr dt' \<or> strptime s ''%Y-%m-%d'' = Inr dt'"
    using that naive2 naive3
    by (auto split: sum.splits)
  have part3: "tzinfo dt' = utc" if "human_loop HUMAN_FORMATS s = Some dt'"
  proof -
    have "tzinfo d = utc" if "human_loop fmts s = Some d" for fmts d
      using that by (induction fmts) (auto split: sum.splits)
    from this [OF that] show ?thesis .
  qed
  from part1 part2 part3 show ?thesis by blast
qed

theorem normalize_pubdate_keeps_offset_witness:
  "''2024-03-05T10:00:00+0500'' \<noteq> []
   \<and> strptime (strip ''2024-03-05T10:00:00+0500'') ''%Y-%m-%dT%H:%M:%S%z'' = Inr date_plus_0500
   \<and> normalize_pubdate now_example (Some ''2024-03-05T10:00:00+0500'')
       = ''Tue, 05 Mar 2024 10:00:00 +0500''
   \<and> human_loop HUMAN_FORMATS (strip ''March 5, 2024'') = Some date_2024_03_05
   \<and> tzinfo date_2024_03_05 = utc
   \<and> strptime ''2024-03-05'' ''%Y-%m-%d'' = Inr (date_2024_03_05\<lparr>tzinfo := None\<rparr>)
   \<and> iso_loop [''%Y-%m-%dT%H:%M:%S'', ''%Y-%m-%d''] ''2024-03-05'' \<noteq> None"
proof -
  have h: "strptime (strip ''2024-03-05T10:00:00+0500'') ''%Y-%m-%dT%H:%M:%S%z'' = Inr date_plus_0500"
    by (simp only: strip_plus_0500 strptime_plus_0500)
  then have d: "strptime (strip ''2024-03-05T10:00:00+0500'') ''%Y-%m-%dT%H:%M:%S%z'' = Inr date_plus_0500
       \<or> (strptime (strip ''2024-03-05T10:00:00+0500'') ''%Y-%m-%dT%H:%M:%S%z'' = Inl (ValueError [])
          \<and> strptime (strip ''2024-03-05T10:00:00+0500'') ''%Y-%m-%dT%H:%M:%S.%f%z'' = Inr date_plus_0500)"
    by simp
  have ne: "''2024-03-05T10:00:00+0500'' \<noteq> []"
    by simp
  from normalize_pubdate_keeps_offset [OF ne d, of now_example "strip ''March 5, 2024''" date_2024_03_05]
  have "normalize_pubdate now_example (Some ''2024-03-05T10:00:00+0500'')
          = strftime OUTPUT_FORMAT date_plus_0500"
    and "human_loop HUMAN_FORMATS (strip ''March 5, 2024'') = Some date_2024_03_05
          \<longrightarrow> tzinfo date_2024_03_05 = utc"
    by blast+
  moreover
  from normalize_pubdate_keeps_offset [OF ne d, of now_example "''2024-03-05''"
      "date_2024_03_05\<lparr>tzinfo := None\<rparr>"] strptime_date_only
  have "iso_loop [''%Y-%m-%dT%H:%M:%S'', ''%Y-%m-%d''] ''2024-03-05'' \<noteq> None"
    by blast
  ultimately show ?thesis
    using h strftime_plus_0500 human_month_name strptime_date_only
    by simp
qed

section \<open>Properties of the driver\<close>

text \<open>
  Claim C8. The run ends with a non-zero status exactly when fetching failed or no item was
  extracted. In the first case the only line printed is \<open>ERROR fetching:\<close> followed by
  the text of the exception, in the second \<open>No items found. Exiting.\<close>; in both the
  status is 1 and nothing is written. Otherwise the status is 0, the feed is written, and
  the only line printed is \<open>Wrote rss.xml with N items\<close> with the number of items in
  decimal.
\<close>

theorem main_outcomes:
  "(fetched = Inl e \<longrightarrow>
      main fetched parse_html urljoin clock =
        \<lparr>stdout = [''ERROR fetching: '' @ str_exn e], exit_status = 1, written = None\<rparr>)
   \<and> (fetched = Inr html \<and> parse_articles urljoin (parse_html html) = [] \<longrightarrow>
      main fetched parse_html urljoin clock =
        \<lparr>stdout = [''No items found. Exiting.''], exit_status = 1, written = None\<rparr>)
   \<and> (fetched = Inr html \<and> parse_articles urljoin (parse_html html) \<noteq> [] \<longrightarrow>
      main fetched parse_html urljoin clock =
        \<lparr>stdout = [''Wrote rss.xml with ''
                    @ show_nat (length (parse_articles urljoin (parse_html html)))
                    @ '' items''],
         exit_status = 0,
         written = Some (file_content
                     (build_rss clock (parse_articles urljoin (parse_html html))))\<rparr>)
   \<and> (exit_status (main fetched parse_html urljoin clock) \<noteq> 0 \<longleftrightarrow>
        (\<exists>e. fetched = Inl e)
        \<or> (\<exists>html. fetched = Inr html \<and> parse_articles urljoin (parse_html html) = []))"
  by (cases fetched) (simp_all add: main_def Let_def build_rss_def OUTPUT_FILE_def)

theorem main_outcomes_witness:
  "main (Inl (RequestException ''404 Client Error'')) (\<lambda>html. page_listing) urljoin_stub
        (\<lambda>k. now_example)
     = \<lparr>stdout = [''ERROR fetching: 404 Client Error''], exit_status = 1, written = None\<rparr>
   \<and> parse_articles urljoin_stub page_empty = []
   \<and> main (Inr ''<p>nothing</p>'') (\<lambda>html. page_empty) urljoin_stub (\<lambda>k. now_example)
     = \<lparr>stdout = [''No items found. Exiting.''], exit_status = 1, written = None\<rparr>
   \<and> parse_articles urljoin_stub page_listing = [item_titled]
   \<and> stdout (main (Inr ''<div>...</div>'') (\<lambda>html. page_listing) urljoin_stub
          (\<lambda>k. now_example)) = [''Wrote rss.xml with 1 items'']
   \<and> exit_status (main (Inr ''<div>...</div>'') (\<lambda>html. page_listing) urljoin_stub
          (\<lambda>k. now_example)) = 0"
proof -
  have e: "parse_articles urljoin_stub page_empty = []"
    by (simp add: parse_articles_def select_articles_def dedupe_and_limit_def page_empty_def
        eval_defs)
  have l: "parse_articles urljoin_stub page_listing = [item_titled]"
    by (simp add: parse_articles_def select_articles_def dedupe_and_limit_def MAX_ITEMS_def
        page_listing_def item_titled_def eval_defs Let_def)
  from main_outcomes [of "Inl (RequestException ''404 Client Error'')"
        "RequestException ''404 Client Error''" "\<lambda>html. page_listing" urljoin_stub
        "\<lambda>k. now_example" "[]"]
    main_outcomes [of "Inr ''<p>nothing</p>''" "RequestException []" "\<lambda>html. page_empty"
        urljoin_stub "\<lambda>k. now_example" "''<p>nothing</p>''"]
    main_outcomes [of "Inr ''<div>...</div>''" "RequestException []" "\<lambda>html. page_listing"
        urljoin_stub "\<lambda>k. now_example" "''<div>...</div>''"]
    e l
  show ?thesis by (simp add: digit_char_def)
qed

end
